theory Spec2Isabelle
  imports Main "HOL-Library.Word"
begin

section \<open>JavaScript strings\<close>

text \<open>
  A JavaScript string is a sequence of UTF-16 code units. \<open>js\<close> embeds an ASCII literal
  of the source. \<open>trim\<close> is \<open>String.prototype.trim\<close>: it strips the ECMAScript WhiteSpace and
  LineTerminator code points (all of them in the basic plane) from both ends. A string is
  falsy exactly when it is empty, so \<open>!s.trim()\<close> of the source is \<open>trim s = []\<close>.
\<close>

type_synonym jsstring = "16 word list"

definition js :: "string \<Rightarrow> jsstring" where
  "js s = map of_char s"

definition isWhiteSpace :: "16 word \<Rightarrow> bool" where
  "isWhiteSpace c \<longleftrightarrow>
     c \<in> {0x9, 0xA, 0xB, 0xC, 0xD, 0x20, 0xA0, 0x1680, 0x2028, 0x2029, 0x202F, 0x205F,
          0x3000, 0xFEFF}
     \<or> (0x2000 \<le> c \<and> c \<le> 0x200A)"

definition trim :: "jsstring \<Rightarrow> jsstring" where
  "trim s = rev (dropWhile isWhiteSpace (rev (dropWhile isWhiteSpace s)))"

text \<open>\<open>Number.prototype.toString\<close> on a non-negative integer: its decimal digits.\<close>

fun toString_nat :: "nat \<Rightarrow> jsstring" where
  "toString_nat n =
     (if n < 10 then [of_nat (48 + n)]
      else toString_nat (n div 10) @ [of_nat (48 + n mod 10)])"

declare toString_nat.simps [simp del]

text \<open>\<open>s.split(c)\<close> for a one-character separator; \<open>nth_opt\<close> is indexing, \<open>None\<close> for
  \<open>undefined\<close>.\<close>

fun split :: "16 word \<Rightarrow> jsstring \<Rightarrow> jsstring list" where
  "split c [] = [[]]"
| "split c (x # xs) =
     (if x = c then [] # split c xs
      else (case split c xs of p # ps \<Rightarrow> (x # p) # ps | [] \<Rightarrow> [[x]]))"

fun nth_opt :: "'a list \<Rightarrow> nat \<Rightarrow> 'a option" where
  "nth_opt [] n = None"
| "nth_opt (x # xs) 0 = Some x"
| "nth_opt (x # xs) (Suc n) = nth_opt xs n"

text \<open>A thrown value: an \<open>Error\<close> instance with its message, or anything else.\<close>

datatype thrown = Error (message: jsstring) | NonError

section \<open>Data model (App.tsx, services/geminiService)\<close>

record Session =
  session_id :: jsstring
  session_name :: jsstring
  session_text :: jsstring
  session_date :: jsstring

record WordMetrics =
  wordCount :: int
  characterCount :: int
  verbCount :: int
  nounCount :: int
  adjectiveCount :: int
  conjunctionCount :: int
  profanityCount :: int

record Blob =
  blob_type :: jsstring
  blob_bytes :: "8 word list"

text \<open>
  The component state of \<open>App\<close>: one field per \<open>useState\<close>/\<open>useLocalStorage\<close> cell, and
  the two refs. \<open>null\<close> is \<open>None\<close>. The recorder ref is reduced to whether it is set and
  the MIME type the recorder reports.
\<close>

record app =
  isRecording :: bool
  audioBlob :: "Blob option"
  audioUrl :: jsstring
  transcribedText :: jsstring
  isTranscribing :: bool
  targetLanguage :: jsstring
  sessionName :: jsstring
  savedSessions :: "Session list"
  editingSessionId :: "jsstring option"
  editingSessionName :: jsstring
  metrics :: "WordMetrics option"
  isAnalyzingMetrics :: bool
  showMetrics :: bool
  error :: "jsstring option"
  copySuccess :: jsstring
  isSessionsExpanded :: bool
  theme :: jsstring
  mediaRecorderRef :: "jsstring option"
  audioChunksRef :: "Blob list"

text \<open>The state after the first render, with the two persisted cells as read from the store.\<close>

definition initial_app :: "Session list \<Rightarrow> jsstring \<Rightarrow> app" where
  "initial_app sessions th =
     \<lparr> isRecording = False, audioBlob = None, audioUrl = [], transcribedText = [],
       isTranscribing = False, targetLanguage = js ''English'', sessionName = [],
       savedSessions = sessions, editingSessionId = None, editingSessionName = [],
       metrics = None, isAnalyzingMetrics = False, showMetrics = False, error = None,
       copySuccess = [], isSessionsExpanded = True, theme = th,
       mediaRecorderRef = None, audioChunksRef = [] \<rparr>"

section \<open>The remote model and the platform\<close>

text \<open>
  A request to \<open>ai.models.generateContent\<close>: the model name, the parts of \<open>contents\<close>, and
  whether a JSON response schema is configured. What the environment does is the record
  \<open>env\<close>: whether \<open>process.env.API_KEY\<close> is set, the remote model (the text of its
  response, a string as the return type \<open>Promise<string>\<close> of the client declares, or the
  value the call rejects with), the \<open>FileReader\<close> (the data URL of a blob,
  or the error event), and \<open>JSON.parse\<close> at the type \<open>WordMetrics\<close>. Every function that
  may call the remote model returns the list of the requests it issued, in order.
\<close>

datatype part = TextPart jsstring | InlineData jsstring "jsstring option"

datatype request = Request (model: jsstring) (parts: "part list") (responseSchema: bool)

record env =
  api_key :: bool
  generateContent :: "request \<Rightarrow> thrown + jsstring"
  readAsDataURL :: "Blob \<Rightarrow> thrown + jsstring"
  parse_metrics :: "jsstring \<Rightarrow> thrown + WordMetrics"

text \<open>The three clock reads of \<open>handleSaveSession\<close>: \<open>Date.now()\<close>,
  \<open>new Date().toLocaleString()\<close> and \<open>new Date().toISOString()\<close>.\<close>

record clock =
  date_now :: nat
  toLocaleString :: jsstring
  toISOString :: jsstring

section \<open>services/geminiService\<close>

text \<open>The request of \<open>transcribeAudio\<close>: the instruction and the inline audio.\<close>

definition transcribe_request :: "jsstring option \<Rightarrow> jsstring \<Rightarrow> jsstring \<Rightarrow> request" where
  "transcribe_request base64Audio mimeType language =
     (let audioPart = InlineData mimeType base64Audio;
          textPart = TextPart
            (js ''Please transcribe this audio recording accurately and provide the final text in ''
               @ language @ js ''.'')
      in Request (js ''gemini-2.5-flash'') [textPart, audioPart] False)"

definition transcribeAudio ::
  "env \<Rightarrow> jsstring option \<Rightarrow> jsstring \<Rightarrow> jsstring \<Rightarrow> (thrown + jsstring) \<times> request list" where
  "transcribeAudio e base64Audio mimeType language =
     (if \<not> api_key e then (Inl (Error (js ''API_KEY environment variable not set'')), [])
      else
        let req = transcribe_request base64Audio mimeType language
        in (case generateContent e req of
              Inr text \<Rightarrow> Inr text
            | Inl (Error m) \<Rightarrow> Inr (js ''Transcription failed: '' @ m)
            | Inl NonError \<Rightarrow> Inr (js ''An unknown error occurred during transcription.''),
            [req]))"

definition analyzeTextMetrics ::
  "env \<Rightarrow> jsstring \<Rightarrow> (thrown + WordMetrics) \<times> request list" where
  "analyzeTextMetrics e text' =
     (if \<not> api_key e then (Inl (Error (js ''API_KEY environment variable not set'')), [])
      else
        let req = Request (js ''gemini-2.5-flash'')
              [TextPart
                 (js ''Analyze the following text and provide counts for the specified metrics. Text: ''
                    @ [0x22] @ text' @ [0x22])]
              True;
            rethrow = (\<lambda>err. case err of
                Error m \<Rightarrow> Inl (Error (js ''Metrics analysis failed: '' @ m))
              | NonError \<Rightarrow> Inl (Error (js ''An unknown error occurred during metrics analysis.'')))
        in (case generateContent e req of
              Inl err \<Rightarrow> rethrow err
            | Inr text \<Rightarrow>
                (case parse_metrics e (trim text) of
                   Inl err \<Rightarrow> rethrow err
                 | Inr m \<Rightarrow> Inr m),
            [req]))"

section \<open>App.tsx: recording, transcription, metrics\<close>

definition blobToBase64 :: "env \<Rightarrow> Blob \<Rightarrow> thrown + jsstring option" where
  "blobToBase64 e blob =
     (case readAsDataURL e blob of
        Inl err \<Rightarrow> Inl err
      | Inr result \<Rightarrow> Inr (nth_opt (split 0x2C result) 1))"

definition runMetricsAnalysis :: "env \<Rightarrow> jsstring \<Rightarrow> app \<Rightarrow> app \<times> request list" where
  "runMetricsAnalysis e text' s =
     (if trim text' = [] then (s\<lparr>metrics := None, showMetrics := False\<rparr>, [])
      else
        let s1 = s\<lparr>isAnalyzingMetrics := True, showMetrics := True\<rparr>;
            (r, calls) = analyzeTextMetrics e text';
            s2 = (case r of
                    Inr result \<Rightarrow> s1\<lparr>metrics := Some result\<rparr>
                  | Inl err \<Rightarrow>
                      s1\<lparr>error := Some (js ''Failed to analyze text metrics.''),
                         showMetrics := False\<rparr>)
        in (s2\<lparr>isAnalyzingMetrics := False\<rparr>, calls))"

text \<open>
  \<open>handleStartRecording\<close>. What the body of its \<open>try\<close> does is the environment's:
  \<open>CaptureFailed\<close> when the microphone permission is refused or the recorder cannot be
  constructed, \<open>StartFailed\<close> when the recorder is constructed (and the ref assigned) but
  its \<open>start\<close> throws, \<open>Started\<close> otherwise; the last two carry the MIME type the
  recorder reports. The recorder's events are \<open>ondataavailable\<close> and \<open>onstop\<close>. Object
  URLs are strings supplied by the platform; their release is not part of the state.
\<close>

datatype capture = CaptureFailed | StartFailed jsstring | Started jsstring

definition handleStartRecording :: "capture \<Rightarrow> app \<Rightarrow> app" where
  "handleStartRecording c s =
     (let s1 = s\<lparr>error := None, audioBlob := None, transcribedText := [], sessionName := [],
                 metrics := None, showMetrics := False, audioUrl := []\<rparr>;
          message = js ''Could not start recording. Please grant microphone permissions.''
      in case c of
           CaptureFailed \<Rightarrow> s1\<lparr>error := Some message\<rparr>
         | StartFailed reported \<Rightarrow> s1\<lparr>mediaRecorderRef := Some reported, error := Some message\<rparr>
         | Started reported \<Rightarrow> s1\<lparr>mediaRecorderRef := Some reported, isRecording := True\<rparr>)"

definition ondataavailable :: "Blob \<Rightarrow> app \<Rightarrow> app" where
  "ondataavailable chunk s =
     (if length (blob_bytes chunk) > 0 then s\<lparr>audioChunksRef := audioChunksRef s @ [chunk]\<rparr>
      else s)"

text \<open>
  \<open>new Blob(parts, {type})\<close>: the bytes of the parts in order; the type is put in ASCII
  lower case, and is the empty string when it has a character outside U+0020 to U+007E.
\<close>

definition ascii_lower :: "16 word \<Rightarrow> 16 word" where
  "ascii_lower c = (if 0x41 \<le> c \<and> c \<le> 0x5A then c + 0x20 else c)"

definition new_Blob :: "Blob list \<Rightarrow> jsstring \<Rightarrow> Blob" where
  "new_Blob blobParts t =
     \<lparr> blob_type = (if list_all (\<lambda>c. 0x20 \<le> c \<and> c \<le> 0x7E) t then map ascii_lower t else []),
       blob_bytes = concat (map blob_bytes blobParts) \<rparr>"

definition onstop :: "jsstring \<Rightarrow> app \<Rightarrow> app" where
  "onstop url s =
     (let mimeType = (case mediaRecorderRef s of
                        None \<Rightarrow> js ''audio/webm''
                      | Some t \<Rightarrow> if t = [] then js ''audio/webm'' else t);
          newAudioBlob = new_Blob (audioChunksRef s) mimeType
      in s\<lparr>audioBlob := Some newAudioBlob, audioUrl := url, audioChunksRef := []\<rparr>)"

definition handleStopRecording :: "app \<Rightarrow> app" where
  "handleStopRecording s =
     (if mediaRecorderRef s \<noteq> None \<and> isRecording s then s\<lparr>isRecording := False\<rparr> else s)"

text \<open>
  \<open>handleTranscribe\<close>, run to completion against the environment's answers.
  \<open>handleTranscribe_begin\<close> is its synchronous prefix, up to the first \<open>await\<close>: the state
  while the transcription is in flight.
\<close>

definition handleTranscribe_begin :: "app \<Rightarrow> app" where
  "handleTranscribe_begin s =
     (case audioBlob s of
        None \<Rightarrow> s\<lparr>error := Some (js ''No audio recorded to transcribe.'')\<rparr>
      | Some blob \<Rightarrow>
          s\<lparr>isTranscribing := True, error := None, transcribedText := [], copySuccess := [],
            metrics := None, showMetrics := False\<rparr>)"

definition handleTranscribe :: "env \<Rightarrow> app \<Rightarrow> app \<times> request list" where
  "handleTranscribe e s =
     (case audioBlob s of
        None \<Rightarrow> (handleTranscribe_begin s, [])
      | Some blob \<Rightarrow>
          let s1 = handleTranscribe_begin s;
              failed = s1\<lparr>error := Some (js ''Failed to transcribe audio. Please try again.''),
                          isTranscribing := False\<rparr>
          in (case blobToBase64 e blob of
                Inl err \<Rightarrow> (failed, [])
              | Inr base64Audio \<Rightarrow>
                  (case transcribeAudio e base64Audio (blob_type blob) (targetLanguage s) of
                     (Inl err, calls) \<Rightarrow> (failed, calls)
                   | (Inr result, calls) \<Rightarrow>
                       let (s2, calls2) =
                             runMetricsAnalysis e result (s1\<lparr>transcribedText := result\<rparr>)
                       in (s2\<lparr>isTranscribing := False\<rparr>, calls @ calls2))))"

text \<open>The Transcribe button: its \<open>disabled\<close> attribute, and a click on it.\<close>

definition transcribe_disabled :: "app \<Rightarrow> bool" where
  "transcribe_disabled s \<longleftrightarrow> audioBlob s = None \<or> isRecording s \<or> isTranscribing s"

definition click_transcribe :: "env \<Rightarrow> app \<Rightarrow> app \<times> request list" where
  "click_transcribe e s = (if transcribe_disabled s then (s, []) else handleTranscribe e s)"

section \<open>App.tsx: sessions\<close>

definition duplicate_message :: "jsstring \<Rightarrow> jsstring" where
  "duplicate_message n =
     js ''A session named '' @ [0x22] @ n @ [0x22]
       @ js '' already exists. Please choose a different name.''"

definition handleSaveSession :: "clock \<Rightarrow> app \<Rightarrow> app" where
  "handleSaveSession c s =
     (if trim (transcribedText s) = []
      then s\<lparr>error := Some (js ''There is no transcribed text to save.'')\<rparr>
      else
        let finalSessionName = trim (sessionName s) in
        if finalSessionName \<noteq> []
           \<and> list_ex (\<lambda>session. session_name session = finalSessionName) (savedSessions s)
        then s\<lparr>error := Some (duplicate_message finalSessionName)\<rparr>
        else
          let newSession =
                \<lparr> session_id = toString_nat (date_now c),
                  session_name = (if finalSessionName \<noteq> [] then finalSessionName
                                  else js ''Session '' @ toLocaleString c),
                  session_text = transcribedText s,
                  session_date = toISOString c \<rparr>;
              s1 = s\<lparr>error := None, savedSessions := newSession # savedSessions s,
                     sessionName := [], audioBlob := None\<rparr>
          in if audioUrl s \<noteq> [] then s1\<lparr>audioUrl := []\<rparr> else s1)"

definition handleLoadSession :: "env \<Rightarrow> jsstring \<Rightarrow> app \<Rightarrow> app \<times> request list" where
  "handleLoadSession e i s =
     (case find (\<lambda>x. session_id x = i) (savedSessions s) of
        None \<Rightarrow> (s, [])
      | Some sessionToLoad \<Rightarrow>
          runMetricsAnalysis e (session_text sessionToLoad)
            (s\<lparr>transcribedText := session_text sessionToLoad,
               sessionName := session_name sessionToLoad,
               audioBlob := None, audioUrl := [], error := None, copySuccess := []\<rparr>))"

definition handleDeleteSession :: "jsstring \<Rightarrow> app \<Rightarrow> app" where
  "handleDeleteSession i s =
     s\<lparr>savedSessions := filter (\<lambda>x. session_id x \<noteq> i) (savedSessions s)\<rparr>"

definition handleStartEditingSession :: "Session \<Rightarrow> app \<Rightarrow> app" where
  "handleStartEditingSession session s =
     s\<lparr>editingSessionId := Some (session_id session),
       editingSessionName := session_name session, error := None\<rparr>"

definition handleCancelEditingSession :: "app \<Rightarrow> app" where
  "handleCancelEditingSession s = s\<lparr>editingSessionId := None, editingSessionName := []\<rparr>"

definition handleSaveSessionName :: "jsstring \<Rightarrow> app \<Rightarrow> app" where
  "handleSaveSessionName i s =
     (let newName = trim (editingSessionName s) in
      if newName = [] then s\<lparr>error := Some (js ''Session name cannot be empty.'')\<rparr>
      else if list_ex (\<lambda>session. session_id session \<noteq> i \<and> session_name session = newName)
                (savedSessions s)
      then s\<lparr>error := Some (duplicate_message newName)\<rparr>
      else
        (handleCancelEditingSession
           (s\<lparr>savedSessions :=
                map (\<lambda>session. if session_id session = i
                                then session\<lparr>session_name := newName\<rparr> else session)
                  (savedSessions s)\<rparr>))
        \<lparr>error := None\<rparr>)"

section \<open>App.tsx: useLocalStorage\<close>

text \<open>
  The platform's key-value store: \<open>getItem\<close> and \<open>setItem\<close> throw when access to the store
  is denied, and \<open>setItem\<close> throws when the quota is exceeded.
\<close>

record localStorage =
  items :: "jsstring \<rightharpoonup> jsstring"
  denied :: bool
  full :: bool

definition getItem :: "localStorage \<Rightarrow> jsstring \<Rightarrow> thrown + jsstring option" where
  "getItem ls key =
     (if denied ls then Inl (Error (js ''SecurityError'')) else Inr (items ls key))"

definition setItem :: "localStorage \<Rightarrow> jsstring \<Rightarrow> jsstring \<Rightarrow> thrown + localStorage" where
  "setItem ls key v =
     (if denied ls then Inl (Error (js ''SecurityError''))
      else if full ls then Inl (Error (js ''QuotaExceededError''))
      else Inr (ls\<lparr>items := (items ls)(key \<mapsto> v)\<rparr>))"

text \<open>
  The initial value is a value or a zero-argument function. \<open>resolve_initial\<close> is
  \<open>initialValue instanceof Function ? initialValue() : initialValue\<close>, with the number of
  times the function was called.
\<close>

datatype 'a initial = Value 'a | Producer "unit \<Rightarrow> thrown + 'a"

definition resolve_initial :: "'a initial \<Rightarrow> (thrown + 'a) \<times> nat" where
  "resolve_initial initialValue =
     (case initialValue of Value v \<Rightarrow> (Inr v, 0) | Producer f \<Rightarrow> (f (), 1))"

definition read_error_log :: "jsstring \<Rightarrow> jsstring" where
  "read_error_log key = js ''Error reading localStorage key '' @ [0x22] @ key @ [0x22] @ js '':''"

definition write_error_log :: "jsstring \<Rightarrow> jsstring" where
  "write_error_log key = js ''Error setting localStorage key '' @ [0x22] @ key @ [0x22] @ js '':''"

text \<open>
  The initialiser of the hook's state cell: the value read (or what is thrown), how often
  the producer was called, and the lines written to the console. \<open>parse\<close> is \<open>JSON.parse\<close>
  at the type of the cell.
\<close>

definition useLocalStorage_read ::
  "(jsstring \<Rightarrow> thrown + 'a) \<Rightarrow> localStorage \<Rightarrow> jsstring \<Rightarrow> 'a initial
     \<Rightarrow> (thrown + 'a) \<times> nat \<times> jsstring list" where
  "useLocalStorage_read parse ls key initialValue =
     (let handler = (\<lambda>n0. let (r, n) = resolve_initial initialValue
                           in (r, n0 + n, [read_error_log key]))
      in case getItem ls key of
           Inl err \<Rightarrow> handler 0
         | Inr item \<Rightarrow>
             (case item of
                Some str \<Rightarrow>
                  (if str \<noteq> []
                   then (case parse str of Inl err \<Rightarrow> handler 0 | Inr v \<Rightarrow> (Inr v, 0, []))
                   else (case resolve_initial initialValue of
                           (Inl err, n) \<Rightarrow> handler n
                         | (Inr v, n) \<Rightarrow> (Inr v, n, [])))
              | None \<Rightarrow>
                  (case resolve_initial initialValue of
                     (Inl err, n) \<Rightarrow> handler n
                   | (Inr v, n) \<Rightarrow> (Inr v, n, []))))"

text \<open>
  The hook after its first render, and the effect that writes the cell through to the
  store. \<open>stringify\<close> is \<open>JSON.stringify\<close> at the type of the cell.
\<close>

record 'a hook =
  storedValue :: 'a
  storage :: localStorage
  console :: "jsstring list"

definition useLocalStorage_effect ::
  "('a \<Rightarrow> thrown + jsstring) \<Rightarrow> jsstring \<Rightarrow> 'a hook \<Rightarrow> 'a hook" where
  "useLocalStorage_effect stringify key h =
     (case stringify (storedValue h) of
        Inl err \<Rightarrow> h\<lparr>console := console h @ [write_error_log key]\<rparr>
      | Inr str \<Rightarrow>
          (case setItem (storage h) key str of
             Inl err \<Rightarrow> h\<lparr>console := console h @ [write_error_log key]\<rparr>
           | Inr ls \<Rightarrow> h\<lparr>storage := ls\<rparr>))"

section \<open>Example values\<close>

definition session_A :: Session where
  "session_A = \<lparr> session_id = js ''1700000000000'', session_name = js ''A'',
                 session_text = js ''hello'', session_date = js ''2023-11-14T22:13:20.000Z'' \<rparr>"

definition session_B :: Session where
  "session_B = \<lparr> session_id = js ''1700000000555'', session_name = js ''B'',
                 session_text = js ''world'', session_date = js ''2023-11-14T22:13:20.555Z'' \<rparr>"

definition example_app :: app where
  "example_app = (initial_app [session_B, session_A] (js ''light''))\<lparr>transcribedText := js ''hello''\<rparr>"

definition example_clock :: clock where
  "example_clock = \<lparr> date_now = 1700000001000, toLocaleString = js ''11/14/2023, 10:13:21 PM'',
                     toISOString = js ''2023-11-14T22:13:21.000Z'' \<rparr>"

definition example_blob :: Blob where
  "example_blob = \<lparr> blob_type = js ''audio/webm'', blob_bytes = [0x1A, 0x45, 0xDF, 0xA3] \<rparr>"

definition example_metrics :: WordMetrics where
  "example_metrics = \<lparr> wordCount = 1, characterCount = 5, verbCount = 0, nounCount = 0,
                        adjectiveCount = 0, conjunctionCount = 0, profanityCount = 0 \<rparr>"

definition named_app :: app where
  "named_app = example_app\<lparr>sessionName := js '' Notes ''\<rparr>"

definition duplicate_app :: app where
  "duplicate_app = example_app\<lparr>sessionName := js ''A''\<rparr>"

definition blank_text_duplicate_app :: app where
  "blank_text_duplicate_app =
     (initial_app [session_B, session_A] (js ''light''))\<lparr>sessionName := js ''A''\<rparr>"

definition blank_name_app :: app where
  "blank_name_app = example_app\<lparr>sessionName := js ''  ''\<rparr>"

definition editing_app :: "jsstring \<Rightarrow> jsstring \<Rightarrow> app" where
  "editing_app i n = example_app\<lparr>editingSessionId := Some i, editingSessionName := n\<rparr>"

text \<open>
  A finished recording, reached from the first render by start, one chunk, stop and the
  recorder's stop event; the same with a transcription in flight; and a recording in
  progress whose predecessor's stop event arrived after the new start.
\<close>

definition recorded_app :: app where
  "recorded_app =
     onstop (js ''blob:1'')
       (handleStopRecording
          (ondataavailable example_blob
             (handleStartRecording (Started (js ''audio/webm'')) (initial_app [] (js ''light'')))))"

definition inflight_app :: app where
  "inflight_app = handleTranscribe_begin recorded_app"

definition overlapping_app :: app where
  "overlapping_app =
     onstop (js ''blob:1'')
       (handleStartRecording (Started (js ''audio/webm''))
          (handleStopRecording
             (ondataavailable example_blob
                (handleStartRecording (Started (js ''audio/webm'')) (initial_app [] (js ''light''))))))"

text \<open>
  The JSON text of \<open>example_metrics\<close>, and \<open>JSON.parse\<close> as far as the examples need it:
  \<open>parse_example\<close> reads that text, the only one it is applied to below; every other
  string is left unread.
\<close>

definition json_field :: "string \<Rightarrow> string \<Rightarrow> jsstring" where
  "json_field k v = [0x22] @ js k @ [0x22] @ js '':'' @ js v"

definition example_metrics_json :: jsstring where
  "example_metrics_json =
     js ''{'' @ json_field ''wordCount'' ''1'' @ js '','' @ json_field ''characterCount'' ''5''
       @ js '','' @ json_field ''verbCount'' ''0'' @ js '','' @ json_field ''nounCount'' ''0''
       @ js '','' @ json_field ''adjectiveCount'' ''0''
       @ js '','' @ json_field ''conjunctionCount'' ''0''
       @ js '','' @ json_field ''profanityCount'' ''0'' @ js ''}''"

definition parse_example :: "jsstring \<Rightarrow> thrown + WordMetrics" where
  "parse_example str =
     (if str = example_metrics_json then Inr example_metrics
      else Inl (Error (js ''Unexpected token'')))"

text \<open>
  An environment whose remote model is unreachable, one that answers (the transcript
  \<open>hello\<close>, and the JSON text above to an analysis request), and one in which the
  transcription request fails and the analysis request is answered.
\<close>

definition offline_env :: env where
  "offline_env = \<lparr> api_key = True,
                   generateContent = (\<lambda>req. Inl (Error (js ''Failed to fetch''))),
                   readAsDataURL = (\<lambda>b. Inr (js ''data:audio/webm;base64,GkXfow=='')),
                   parse_metrics = parse_example \<rparr>"

definition online_env :: env where
  "online_env = \<lparr> api_key = True,
                  generateContent = (\<lambda>req. if responseSchema req then Inr example_metrics_json
                                            else Inr (js ''hello'')),
                  readAsDataURL = (\<lambda>b. Inr (js ''data:audio/webm;base64,GkXfow=='')),
                  parse_metrics = parse_example \<rparr>"

definition flaky_env :: env where
  "flaky_env = \<lparr> api_key = True,
                 generateContent = (\<lambda>req. if responseSchema req then Inr example_metrics_json
                                           else Inl (Error (js ''Failed to fetch''))),
                 readAsDataURL = (\<lambda>b. Inr (js ''data:audio/webm;base64,GkXfow=='')),
                 parse_metrics = parse_example \<rparr>"

text \<open>
  Two saves with a blank name within one second: the clock of the second save shows the
  same local time as \<open>example_clock\<close>, four hundred milliseconds later. Then the newest
  session is opened for renaming, its name left as it is.
\<close>

definition later_clock :: clock where
  "later_clock = \<lparr> date_now = 1700000001400, toLocaleString = js ''11/14/2023, 10:13:21 PM'',
                   toISOString = js ''2023-11-14T22:13:21.400Z'' \<rparr>"

definition twice_saved_app :: app where
  "twice_saved_app = handleSaveSession later_clock (handleSaveSession example_clock example_app)"

definition own_name_app :: app where
  "own_name_app = handleStartEditingSession (savedSessions twice_saved_app ! 0) twice_saved_app"

text \<open>A store holding a corrupted theme, and \<open>JSON.parse\<close> and \<open>JSON.stringify\<close> at the
  theme's type.\<close>

definition theme_key :: jsstring where
  "theme_key = js ''robo-ai-theme''"

definition corrupt_store :: localStorage where
  "corrupt_store = \<lparr> items = [theme_key \<mapsto> js ''{oops''], denied = False, full = False \<rparr>"

definition dark_store :: localStorage where
  "dark_store = \<lparr> items = [theme_key \<mapsto> [0x22] @ js ''dark'' @ [0x22]], denied = False,
                   full = False \<rparr>"

definition parse_theme :: "jsstring \<Rightarrow> thrown + jsstring" where
  "parse_theme str =
     (if str = [0x22] @ js ''dark'' @ [0x22] then Inr (js ''dark'')
      else if str = [0x22] @ js ''light'' @ [0x22] then Inr (js ''light'')
      else Inl (Error (js ''SyntaxError'')))"

definition stringify_theme :: "jsstring \<Rightarrow> thrown + jsstring" where
  "stringify_theme th = Inr ([0x22] @ th @ [0x22])"

definition full_hook :: "jsstring hook" where
  "full_hook = \<lparr> storedValue = js ''dark'',
                 storage = \<lparr> items = Map.empty, denied = False, full = True \<rparr>,
                 console = [] \<rparr>"

section \<open>Evaluation and helper lemmas\<close>

lemmas eval_defs = example_app_def initial_app_def session_A_def session_B_def js_def
  example_clock_def trim_def isWhiteSpace_def

lemmas recording_defs = recorded_app_def onstop_def new_Blob_def ascii_lower_def
  handleStopRecording_def ondataavailable_def handleStartRecording_def example_blob_def
  initial_app_def js_def Let_def

lemmas transcribe_defs = handleTranscribe_def handleTranscribe_begin_def blobToBase64_def
  transcribeAudio_def transcribe_request_def runMetricsAnalysis_def analyzeTextMetrics_def
  parse_example_def example_metrics_json_def json_field_def

text \<open>A string trims to the empty string exactly when it consists of white space only.\<close>

lemma trim_Nil_iff: "trim s = [] \<longleftrightarrow> (\<forall>c \<in> set s. isWhiteSpace c)"
proof -
  have "trim s = [] \<longleftrightarrow> (\<forall>c \<in> set (dropWhile isWhiteSpace s). isWhiteSpace c)"
    by (simp add: trim_def)
  also have "\<dots> \<longleftrightarrow> dropWhile isWhiteSpace s = []"
  proof
    assume all: "\<forall>c \<in> set (dropWhile isWhiteSpace s). isWhiteSpace c"
    show "dropWhile isWhiteSpace s = []"
    proof (rule ccontr)
      assume ne: "dropWhile isWhiteSpace s \<noteq> []"
      then have "\<not> isWhiteSpace (hd (dropWhile isWhiteSpace s))" by (rule hd_dropWhile)
      moreover from ne have "hd (dropWhile isWhiteSpace s) \<in> set (dropWhile isWhiteSpace s)"
        by simp
      ultimately show False using all by blast
    qed
  next
    assume empty: "dropWhile isWhiteSpace s = []"
    show "\<forall>c \<in> set (dropWhile isWhiteSpace s). isWhiteSpace c" unfolding empty by simp
  qed
  also have "\<dots> \<longleftrightarrow> (\<forall>c \<in> set s. isWhiteSpace c)"
    by simp
  finally show ?thesis .
qed

text \<open>
  \<open>handleSaveSession\<close> returns nothing; it reports a failure by setting the error
  message and clears the message when it saves. So a save has succeeded exactly when the
  error slot is empty afterwards, which is when both guards were passed.
\<close>

lemma save_succeeds_iff:
  "error (handleSaveSession c s) = None \<longleftrightarrow>
     trim (transcribedText s) \<noteq> []
     \<and> \<not> (trim (sessionName s) \<noteq> []
          \<and> (\<exists>x \<in> set (savedSessions s). session_name x = trim (sessionName s)))"
  by (simp add: handleSaveSession_def Let_def list_ex_iff)

text \<open>The metrics analysis leaves the transcript alone and sets at most its own message.\<close>

lemma runMetricsAnalysis_transcribedText:
  "transcribedText (fst (runMetricsAnalysis e t s)) = transcribedText s"
  by (simp add: runMetricsAnalysis_def Let_def split: prod.splits sum.splits)

lemma runMetricsAnalysis_error:
  "error (fst (runMetricsAnalysis e t s)) = error s
   \<or> error (fst (runMetricsAnalysis e t s)) = Some (js ''Failed to analyze text metrics.'')"
  by (simp add: runMetricsAnalysis_def Let_def split: prod.splits sum.splits)

lemma generic_message_distinct:
  "js ''Failed to analyze text metrics.'' \<noteq> js ''Failed to transcribe audio. Please try again.''"
  by (simp add: js_def)

text \<open>With the API key set the client always returns a text, also when the call fails.\<close>

lemma transcribeAudio_returns_text:
  assumes "api_key e"
  shows "\<exists>result. fst (transcribeAudio e base64Audio mimeType language) = Inr result"
  using assms by (simp add: transcribeAudio_def Let_def split: sum.splits thrown.splits)

text \<open>When the client returns a text, that text is the transcript, whatever it says.\<close>

lemma handleTranscribe_text:
  assumes "audioBlob s = Some blob" and "blobToBase64 e blob = Inr b64"
      and "fst (transcribeAudio e b64 (blob_type blob) (targetLanguage s)) = Inr result"
  shows "transcribedText (fst (handleTranscribe e s)) = result"
    and "error (fst (handleTranscribe e s)) = None
         \<or> error (fst (handleTranscribe e s)) = Some (js ''Failed to analyze text metrics.'')"
proof -
  obtain calls where t: "transcribeAudio e b64 (blob_type blob) (targetLanguage s) = (Inr result, calls)"
    using assms(3) by (cases "transcribeAudio e b64 (blob_type blob) (targetLanguage s)") simp
  let ?s1 = "(handleTranscribe_begin s)\<lparr>transcribedText := result\<rparr>"
  obtain s2 calls2 where r: "runMetricsAnalysis e result ?s1 = (s2, calls2)"
    by (cases "runMetricsAnalysis e result ?s1")
  have h: "fst (handleTranscribe e s) = s2\<lparr>isTranscribing := False\<rparr>"
    using assms(1,2) t r by (simp add: handleTranscribe_def)
  have "transcribedText s2 = result"
    using runMetricsAnalysis_transcribedText [of e result ?s1] r by simp
  with h show "transcribedText (fst (handleTranscribe e s)) = result" by simp
  have "error ?s1 = None" using assms(1) by (simp add: handleTranscribe_begin_def)
  with runMetricsAnalysis_error [of e result ?s1] r
  have "error s2 = None \<or> error s2 = Some (js ''Failed to analyze text metrics.'')" by simp
  with h show "error (fst (handleTranscribe e s)) = None
         \<or> error (fst (handleTranscribe e s)) = Some (js ''Failed to analyze text metrics.'')"
    by simp
qed

section \<open>Claims\<close>

subsection \<open>C1: a failed remote transcription\<close>

text \<open>
  Claim C1, as amended. When the remote transcription call fails, \<open>transcribeAudio\<close>
  returns a descriptive failure string (\<open>Transcription failed: <message>\<close>, or
  \<open>An unknown error occurred during transcription.\<close>) as its ordinary result;
  \<open>handleTranscribe\<close> stores that non-empty string in the transcript field and does not
  set the generic message \<open>Failed to transcribe audio. Please try again.\<close>. With
  recorded audio, and every response of the remote model carrying a text, the generic
  message is set if and only if encoding the audio fails or the client throws because
  the API key is not set; the transcript field is then empty and no transcription is
  left in flight.
\<close>

theorem transcribe_failure_becomes_text:
  "(api_key e \<and> audioBlob s = Some blob \<and> blobToBase64 e blob = Inr b64
      \<and> generateContent e (transcribe_request b64 (blob_type blob) (targetLanguage s)) = Inl err
    \<longrightarrow> fst (transcribeAudio e b64 (blob_type blob) (targetLanguage s))
          = Inr (case err of Error m \<Rightarrow> js ''Transcription failed: '' @ m
                 | NonError \<Rightarrow> js ''An unknown error occurred during transcription.'')
        \<and> transcribedText (fst (handleTranscribe e s))
          = (case err of Error m \<Rightarrow> js ''Transcription failed: '' @ m
             | NonError \<Rightarrow> js ''An unknown error occurred during transcription.'')
        \<and> transcribedText (fst (handleTranscribe e s)) \<noteq> []
        \<and> error (fst (handleTranscribe e s))
          \<noteq> Some (js ''Failed to transcribe audio. Please try again.''))
   \<and> (audioBlob s = Some blob
      \<longrightarrow> (error (fst (handleTranscribe e s))
              = Some (js ''Failed to transcribe audio. Please try again.'')
            \<longleftrightarrow> isl (blobToBase64 e blob) \<or> \<not> api_key e)
          \<and> (isl (blobToBase64 e blob) \<or> \<not> api_key e
             \<longrightarrow> transcribedText (fst (handleTranscribe e s)) = []
                 \<and> \<not> isTranscribing (fst (handleTranscribe e s))))"
proof (intro conjI impI)
  assume a: "api_key e \<and> audioBlob s = Some blob \<and> blobToBase64 e blob = Inr b64
      \<and> generateContent e (transcribe_request b64 (blob_type blob) (targetLanguage s)) = Inl err"
  let ?msg = "case err of Error m \<Rightarrow> js ''Transcription failed: '' @ m
                 | NonError \<Rightarrow> js ''An unknown error occurred during transcription.''"
  show client: "fst (transcribeAudio e b64 (blob_type blob) (targetLanguage s)) = Inr ?msg"
    using a by (simp add: transcribeAudio_def split: thrown.splits)
  from a have b: "audioBlob s = Some blob" "blobToBase64 e blob = Inr b64" by simp_all
  show field: "transcribedText (fst (handleTranscribe e s)) = ?msg"
    by (rule handleTranscribe_text(1) [OF b client])
  show "transcribedText (fst (handleTranscribe e s)) \<noteq> []"
    unfolding field by (simp add: js_def split: thrown.splits)
  show "error (fst (handleTranscribe e s)) \<noteq> Some (js ''Failed to transcribe audio. Please try again.'')"
    using handleTranscribe_text(2) [OF b client] generic_message_distinct by auto
next
  assume b: "audioBlob s = Some blob"
  have thrown: "fst (handleTranscribe e s)
     = (handleTranscribe_begin s)\<lparr>error := Some (js ''Failed to transcribe audio. Please try again.''),
          isTranscribing := False\<rparr>"
    if "isl (blobToBase64 e blob) \<or> \<not> api_key e"
    using that b
    by (auto simp: handleTranscribe_def transcribeAudio_def isl_def Let_def split: sum.splits)
  have answered: "error (fst (handleTranscribe e s))
                    \<noteq> Some (js ''Failed to transcribe audio. Please try again.'')"
    if n: "\<not> (isl (blobToBase64 e blob) \<or> \<not> api_key e)"
  proof -
    from n obtain b64 where r: "blobToBase64 e blob = Inr b64"
      by (cases "blobToBase64 e blob") auto
    from n have "api_key e" by simp
    from transcribeAudio_returns_text [OF this]
    obtain result where "fst (transcribeAudio e b64 (blob_type blob) (targetLanguage s)) = Inr result"
      by blast
    from handleTranscribe_text(2) [OF b r this] generic_message_distinct
    show ?thesis by auto
  qed
  from thrown answered
  show "error (fst (handleTranscribe e s)) = Some (js ''Failed to transcribe audio. Please try again.'')
        \<longleftrightarrow> isl (blobToBase64 e blob) \<or> \<not> api_key e"
    by (cases "isl (blobToBase64 e blob) \<or> \<not> api_key e") simp_all
  assume "isl (blobToBase64 e blob) \<or> \<not> api_key e"
  from thrown [OF this] b
  show "transcribedText (fst (handleTranscribe e s)) = []"
       "\<not> isTranscribing (fst (handleTranscribe e s))"
    by (simp_all add: handleTranscribe_begin_def)
qed

text \<open>The theorem at an unreachable remote model, and at a missing API key.\<close>

theorem transcribe_failure_becomes_text_witness:
  "api_key offline_env
   \<and> audioBlob recorded_app = Some example_blob
   \<and> blobToBase64 offline_env example_blob = Inr (Some (js ''GkXfow==''))
   \<and> transcribedText (fst (handleTranscribe offline_env recorded_app))
       = js ''Transcription failed: Failed to fetch''
   \<and> error (fst (handleTranscribe offline_env recorded_app))
       \<noteq> Some (js ''Failed to transcribe audio. Please try again.'')
   \<and> \<not> api_key (offline_env\<lparr>api_key := False\<rparr>)
   \<and> error (fst (handleTranscribe (offline_env\<lparr>api_key := False\<rparr>) recorded_app))
       = Some (js ''Failed to transcribe audio. Please try again.'')
   \<and> transcribedText (fst (handleTranscribe (offline_env\<lparr>api_key := False\<rparr>) recorded_app)) = []
   \<and> \<not> isl (blobToBase64 online_env example_blob)
   \<and> error (fst (handleTranscribe online_env recorded_app))
       \<noteq> Some (js ''Failed to transcribe audio. Please try again.'')"
proof -
  have k: "api_key offline_env" "api_key online_env"
    by (simp_all add: offline_env_def online_env_def)
  have b: "audioBlob recorded_app = Some example_blob" by (simp add: recording_defs)
  have r: "blobToBase64 offline_env example_blob = Inr (Some (js ''GkXfow==''))"
    by (simp add: blobToBase64_def offline_env_def js_def)
  have g: "generateContent offline_env
             (transcribe_request (Some (js ''GkXfow=='')) (blob_type example_blob)
                (targetLanguage recorded_app)) = Inl (Error (js ''Failed to fetch''))"
    by (simp add: offline_env_def)
  have o: "\<not> isl (blobToBase64 online_env example_blob)"
    by (simp add: blobToBase64_def online_env_def)
  from transcribe_failure_becomes_text
         [of offline_env recorded_app example_blob "Some (js ''GkXfow=='')" "Error (js ''Failed to fetch'')"]
       k b r g
  have failed: "transcribedText (fst (handleTranscribe offline_env recorded_app))
                  = js ''Transcription failed: Failed to fetch''
                \<and> error (fst (handleTranscribe offline_env recorded_app))
                  \<noteq> Some (js ''Failed to transcribe audio. Please try again.'')"
    by (simp add: js_def)
  from transcribe_failure_becomes_text
         [of "offline_env\<lparr>api_key := False\<rparr>" recorded_app example_blob
             "Some (js ''GkXfow=='')" "Error (js ''Failed to fetch'')"] b
  have nokey: "error (fst (handleTranscribe (offline_env\<lparr>api_key := False\<rparr>) recorded_app))
                 = Some (js ''Failed to transcribe audio. Please try again.'')
               \<and> transcribedText (fst (handleTranscribe (offline_env\<lparr>api_key := False\<rparr>) recorded_app)) = []"
    by simp
  from transcribe_failure_becomes_text
         [of online_env recorded_app example_blob
             "Some (js ''GkXfow=='')" "Error (js ''Failed to fetch'')"] b k o
  have answered: "error (fst (handleTranscribe online_env recorded_app))
                    \<noteq> Some (js ''Failed to transcribe audio. Please try again.'')"
    by simp
  from k b r o failed nokey answered show ?thesis by simp
qed

text \<open>
  The claim as first stated fails: when the transcription request is rejected, the client
  returns the failure string as a text, it becomes the transcript, no error message is
  set, and the analysis request is issued for the failure string.
\<close>

theorem transcribe_failure_counterexample:
  "generateContent flaky_env
      (transcribe_request (Some (js ''GkXfow=='')) (js ''audio/webm'') (js ''English''))
     = Inl (Error (js ''Failed to fetch''))
   \<and> transcribeAudio flaky_env (Some (js ''GkXfow=='')) (js ''audio/webm'') (js ''English'')
     = (Inr (js ''Transcription failed: Failed to fetch''),
        [transcribe_request (Some (js ''GkXfow=='')) (js ''audio/webm'') (js ''English'')])
   \<and> transcribedText (fst (handleTranscribe flaky_env recorded_app))
     = js ''Transcription failed: Failed to fetch''
   \<and> error (fst (handleTranscribe flaky_env recorded_app)) = None
   \<and> snd (handleTranscribe flaky_env recorded_app)
     = [transcribe_request (Some (js ''GkXfow=='')) (js ''audio/webm'') (js ''English''),
        Request (js ''gemini-2.5-flash'')
          [TextPart (js ''Analyze the following text and provide counts for the specified metrics. Text: ''
                       @ [0x22] @ js ''Transcription failed: Failed to fetch'' @ [0x22])] True]"
  by (simp add: transcribe_defs recording_defs flaky_env_def js_def trim_def isWhiteSpace_def)

subsection \<open>C2: saving under a name that is taken\<close>

text \<open>
  Claim C2, as amended. For every session collection, every transcript text that is
  non-empty after trimming and every requested name whose trimmed form is non-empty and
  equals the name of an existing session, the save fails with the duplicate-name message
  and changes nothing else: the collection is unchanged.
\<close>

theorem save_duplicate_name_rejected:
  assumes "trim (transcribedText s) \<noteq> []"
      and "trim (sessionName s) \<noteq> []"
      and "\<exists>x \<in> set (savedSessions s). session_name x = trim (sessionName s)"
  shows "handleSaveSession c s = s\<lparr>error := Some (duplicate_message (trim (sessionName s)))\<rparr>
         \<and> savedSessions (handleSaveSession c s) = savedSessions s"
  using assms by (simp add: handleSaveSession_def Let_def list_ex_iff)

text \<open>The theorem at the name \<open>A\<close>, which a stored session has.\<close>

theorem save_duplicate_name_rejected_witness:
  "trim (transcribedText duplicate_app) \<noteq> []
   \<and> trim (sessionName duplicate_app) \<noteq> []
   \<and> (\<exists>x \<in> set (savedSessions duplicate_app). session_name x = trim (sessionName duplicate_app))
   \<and> error (handleSaveSession example_clock duplicate_app) = Some (duplicate_message (js ''A''))
   \<and> savedSessions (handleSaveSession example_clock duplicate_app) = [session_B, session_A]"
proof -
  have h1: "trim (transcribedText duplicate_app) \<noteq> []"
    by (simp add: duplicate_app_def eval_defs)
  have h2: "trim (sessionName duplicate_app) \<noteq> []"
    by (simp add: duplicate_app_def eval_defs)
  have h3: "\<exists>x \<in> set (savedSessions duplicate_app). session_name x = trim (sessionName duplicate_app)"
    by (simp add: duplicate_app_def eval_defs)
  from save_duplicate_name_rejected [OF h1 h2 h3, of example_clock] h1 h2 h3
  show ?thesis by (simp add: duplicate_app_def eval_defs)
qed

text \<open>
  The claim as first stated fails when the transcript is blank: the first guard of
  \<open>handleSaveSession\<close> rejects the save with its own message before the name is looked at.
\<close>

theorem save_duplicate_name_counterexample:
  "sessionName blank_text_duplicate_app \<noteq> []
   \<and> session_A \<in> set (savedSessions blank_text_duplicate_app)
   \<and> session_name session_A = sessionName blank_text_duplicate_app
   \<and> error (handleSaveSession example_clock blank_text_duplicate_app)
       = Some (js ''There is no transcribed text to save.'')
   \<and> error (handleSaveSession example_clock blank_text_duplicate_app)
       \<noteq> Some (duplicate_message (sessionName blank_text_duplicate_app))"
  by (simp add: handleSaveSession_def blank_text_duplicate_app_def duplicate_message_def eval_defs)

subsection \<open>C3: a successful save\<close>

text \<open>
  Claim C3. For every successful save, exactly one new session is put in front of the
  collection; its name is the trimmed requested name when that is non-empty and
  \<open>Session\<close> followed by the local time otherwise; its text is the transcript text as it
  is.
\<close>

theorem save_success_prepends_one:
  assumes "error (handleSaveSession c s) = None"
  shows "\<exists>new. savedSessions (handleSaveSession c s) = new # savedSessions s
           \<and> session_name new =
               (if trim (sessionName s) \<noteq> [] then trim (sessionName s)
                else js ''Session '' @ toLocaleString c)
           \<and> session_text new = transcribedText s"
  using assms by (auto simp: handleSaveSession_def Let_def split: if_splits)

text \<open>The theorem at a blank name and at the name \<open>Notes\<close> typed with spaces around it.\<close>

theorem save_success_prepends_one_witness:
  "error (handleSaveSession example_clock example_app) = None
   \<and> error (handleSaveSession example_clock named_app) = None
   \<and> (\<exists>new. savedSessions (handleSaveSession example_clock example_app)
               = new # savedSessions example_app
           \<and> session_name new = js ''Session 11/14/2023, 10:13:21 PM''
           \<and> session_text new = js ''hello'')
   \<and> (\<exists>new. savedSessions (handleSaveSession example_clock named_app)
               = new # savedSessions named_app
           \<and> session_name new = js ''Notes''
           \<and> session_text new = js ''hello'')"
proof -
  have h1: "error (handleSaveSession example_clock example_app) = None"
    by (simp add: save_succeeds_iff eval_defs)
  have h2: "error (handleSaveSession example_clock named_app) = None"
    by (simp add: save_succeeds_iff named_app_def eval_defs)
  from save_success_prepends_one [OF h1] save_success_prepends_one [OF h2] h1 h2
  show ?thesis by (simp add: named_app_def eval_defs)
qed

subsection \<open>C4: renaming a session\<close>

text \<open>
  Claim C4, as amended. The rename succeeds if and only if the new name trims to a
  non-empty string and no session with a different id has exactly that trimmed name. On
  failure the collection is unchanged. On success the collection keeps its length and
  order, every session keeps its id, text and date, and the name changes, to the trimmed
  new name, only for the session with the given id. Renaming a session to its own
  current, non-empty name succeeds exactly when no session with a different id shares
  that name, as is the case when the stored names are distinct.
\<close>

theorem rename_succeeds_iff:
  fixes i s
  defines "s' \<equiv> handleSaveSessionName i s"
      and "newName \<equiv> trim (editingSessionName s)"
  shows "(error s' = None \<longleftrightarrow>
            newName \<noteq> []
            \<and> \<not> (\<exists>x \<in> set (savedSessions s). session_id x \<noteq> i \<and> session_name x = newName))
       \<and> (error s' \<noteq> None \<longrightarrow> savedSessions s' = savedSessions s)
       \<and> (error s' = None \<longrightarrow>
            length (savedSessions s') = length (savedSessions s)
            \<and> (\<forall>k < length (savedSessions s).
                  session_id (savedSessions s' ! k) = session_id (savedSessions s ! k)
                \<and> session_text (savedSessions s' ! k) = session_text (savedSessions s ! k)
                \<and> session_date (savedSessions s' ! k) = session_date (savedSessions s ! k)
                \<and> session_name (savedSessions s' ! k) =
                    (if session_id (savedSessions s ! k) = i then newName
                     else session_name (savedSessions s ! k))))
       \<and> (newName \<noteq> []
            \<and> (\<exists>x \<in> set (savedSessions s). session_id x = i \<and> session_name x = newName)
          \<longrightarrow> (error s' = None \<longleftrightarrow>
                  \<not> (\<exists>y \<in> set (savedSessions s). session_id y \<noteq> i \<and> session_name y = newName))
              \<and> (distinct (map session_name (savedSessions s)) \<longrightarrow> error s' = None))"
proof -
  have iff: "error s' = None \<longleftrightarrow>
            newName \<noteq> []
            \<and> \<not> (\<exists>x \<in> set (savedSessions s). session_id x \<noteq> i \<and> session_name x = newName)"
    unfolding s'_def newName_def
    by (simp add: handleSaveSessionName_def handleCancelEditingSession_def Let_def list_ex_iff)
  have fail: "error s' \<noteq> None \<longrightarrow> savedSessions s' = savedSessions s"
    unfolding s'_def
    by (simp add: handleSaveSessionName_def handleCancelEditingSession_def Let_def)
  have ok: "error s' = None \<longrightarrow>
            length (savedSessions s') = length (savedSessions s)
            \<and> (\<forall>k < length (savedSessions s).
                  session_id (savedSessions s' ! k) = session_id (savedSessions s ! k)
                \<and> session_text (savedSessions s' ! k) = session_text (savedSessions s ! k)
                \<and> session_date (savedSessions s' ! k) = session_date (savedSessions s ! k)
                \<and> session_name (savedSessions s' ! k) =
                    (if session_id (savedSessions s ! k) = i then newName
                     else session_name (savedSessions s ! k)))"
    unfolding s'_def newName_def
    by (simp add: handleSaveSessionName_def handleCancelEditingSession_def Let_def)
  have own: "error s' = None"
    if ne: "newName \<noteq> []" and d: "distinct (map session_name (savedSessions s))"
      and ex: "\<exists>x \<in> set (savedSessions s). session_id x = i \<and> session_name x = newName"
  proof -
    from ex obtain x where x: "x \<in> set (savedSessions s)" "session_id x = i"
      "session_name x = newName" by blast
    have "session_id y = i" if "y \<in> set (savedSessions s)" "session_name y = newName" for y
    proof -
      from d have "inj_on session_name (set (savedSessions s))" by (simp add: distinct_map)
      with x that have "y = x" by (auto dest: inj_onD)
      with x show ?thesis by simp
    qed
    with ne iff show ?thesis by blast
  qed
  from iff fail ok own show ?thesis by blast
qed

text \<open>
  The theorem at a rename of \<open>A\<close> to its own name, to the name of \<open>B\<close>, and to the new
  name \<open>C\<close>.
\<close>

theorem rename_succeeds_iff_witness:
  "trim (editingSessionName (editing_app (session_id session_A) (js '' A ''))) = js ''A''
   \<and> session_name session_A = js ''A''
   \<and> error (handleSaveSessionName (session_id session_A)
              (editing_app (session_id session_A) (js '' A ''))) = None
   \<and> session_name session_B = trim (editingSessionName (editing_app (session_id session_A) (js ''B'')))
   \<and> error (handleSaveSessionName (session_id session_A)
              (editing_app (session_id session_A) (js ''B''))) \<noteq> None
   \<and> savedSessions (handleSaveSessionName (session_id session_A)
              (editing_app (session_id session_A) (js ''B''))) = [session_B, session_A]
   \<and> error (handleSaveSessionName (session_id session_A)
              (editing_app (session_id session_A) (js ''C''))) = None
   \<and> session_name (savedSessions (handleSaveSessionName (session_id session_A)
              (editing_app (session_id session_A) (js ''C''))) ! 0) = js ''B''
   \<and> session_name (savedSessions (handleSaveSessionName (session_id session_A)
              (editing_app (session_id session_A) (js ''C''))) ! 1) = js ''C''
   \<and> session_text (savedSessions (handleSaveSessionName (session_id session_A)
              (editing_app (session_id session_A) (js ''C''))) ! 1) = js ''hello''"
proof -
  let ?i = "session_id session_A"
  let ?own = "editing_app ?i (js '' A '')"
  let ?other = "editing_app ?i (js ''B'')"
  let ?fresh = "editing_app ?i (js ''C'')"
  have own: "trim (editingSessionName ?own) = js ''A''" "session_name session_A = js ''A''"
    by (simp_all add: editing_app_def eval_defs)
  have pre: "trim (editingSessionName ?own) \<noteq> []
             \<and> distinct (map session_name (savedSessions ?own))
             \<and> (\<exists>x \<in> set (savedSessions ?own).
                   session_id x = ?i \<and> session_name x = trim (editingSessionName ?own))"
    by (simp add: editing_app_def eval_defs)
  have ok: "error (handleSaveSessionName ?i ?own) = None"
    using rename_succeeds_iff [of ?i ?own] pre by blast
  have other: "session_name session_B = trim (editingSessionName ?other)"
    by (simp add: editing_app_def eval_defs)
  have dup: "\<exists>x \<in> set (savedSessions ?other).
               session_id x \<noteq> ?i \<and> session_name x = trim (editingSessionName ?other)"
    by (simp add: editing_app_def eval_defs)
  have fail: "error (handleSaveSessionName ?i ?other) \<noteq> None
              \<and> savedSessions (handleSaveSessionName ?i ?other) = savedSessions ?other"
    using rename_succeeds_iff [of ?i ?other] dup by blast
  have sessions: "savedSessions ?other = [session_B, session_A]"
    "savedSessions ?fresh = [session_B, session_A]"
    by (simp_all add: editing_app_def example_app_def initial_app_def)
  have free: "trim (editingSessionName ?fresh) \<noteq> []
              \<and> \<not> (\<exists>x \<in> set (savedSessions ?fresh).
                     session_id x \<noteq> ?i \<and> session_name x = trim (editingSessionName ?fresh))"
    by (simp add: editing_app_def eval_defs)
  have changed: "error (handleSaveSessionName ?i ?fresh) = None"
    using rename_succeeds_iff [of ?i ?fresh] free by blast
  with rename_succeeds_iff [of ?i ?fresh]
  have each: "\<forall>k < length (savedSessions ?fresh).
                session_text (savedSessions (handleSaveSessionName ?i ?fresh) ! k)
                  = session_text (savedSessions ?fresh ! k)
              \<and> session_name (savedSessions (handleSaveSessionName ?i ?fresh) ! k)
                  = (if session_id (savedSessions ?fresh ! k) = ?i
                     then trim (editingSessionName ?fresh)
                     else session_name (savedSessions ?fresh ! k))"
    by blast
  have len: "(0::nat) < length (savedSessions ?fresh)" "(1::nat) < length (savedSessions ?fresh)"
    by (simp_all add: sessions)
  have at0: "savedSessions ?fresh ! 0 = session_B" and at1: "savedSessions ?fresh ! 1 = session_A"
    by (simp_all add: sessions)
  from each len(1)
  have "session_name (savedSessions (handleSaveSessionName ?i ?fresh) ! 0)
          = (if session_id (savedSessions ?fresh ! 0) = ?i then trim (editingSessionName ?fresh)
             else session_name (savedSessions ?fresh ! 0))"
    by blast
  then have n0: "session_name (savedSessions (handleSaveSessionName ?i ?fresh) ! 0) = js ''B''"
    unfolding at0 by (simp add: session_A_def session_B_def js_def)
  from each len(2)
  have "session_text (savedSessions (handleSaveSessionName ?i ?fresh) ! 1)
          = session_text (savedSessions ?fresh ! 1)
        \<and> session_name (savedSessions (handleSaveSessionName ?i ?fresh) ! 1)
          = (if session_id (savedSessions ?fresh ! 1) = ?i then trim (editingSessionName ?fresh)
             else session_name (savedSessions ?fresh ! 1))"
    by blast
  then have n1: "session_name (savedSessions (handleSaveSessionName ?i ?fresh) ! 1) = js ''C''"
    "session_text (savedSessions (handleSaveSessionName ?i ?fresh) ! 1) = js ''hello''"
    unfolding at1 by (simp_all add: editing_app_def eval_defs)
  from own ok other fail sessions changed n0 n1 show ?thesis by simp
qed

text \<open>
  The claim as first stated fails where two sessions share a name: after two saves with
  a blank name within one second, both carry the same synthesized name under different
  ids, and renaming the newer one to its own current name is rejected as a duplicate.
\<close>

theorem rename_own_name_counterexample:
  "map session_name (savedSessions twice_saved_app)
     = [js ''Session 11/14/2023, 10:13:21 PM'', js ''Session 11/14/2023, 10:13:21 PM'',
        js ''B'', js ''A'']
   \<and> map session_id (savedSessions twice_saved_app)
     = [js ''1700000001400'', js ''1700000001000'', js ''1700000000555'', js ''1700000000000'']
   \<and> editingSessionId own_name_app = Some (js ''1700000001400'')
   \<and> trim (editingSessionName own_name_app) = js ''Session 11/14/2023, 10:13:21 PM''
   \<and> error (handleSaveSessionName (js ''1700000001400'') own_name_app)
     = Some (duplicate_message (js ''Session 11/14/2023, 10:13:21 PM''))"
  by (simp add: own_name_app_def twice_saved_app_def handleStartEditingSession_def
        handleSaveSessionName_def handleSaveSession_def later_clock_def eval_defs
        toString_nat.simps Let_def)

subsection \<open>C5: transcription and recording exclude each other\<close>

text \<open>
  Claim C5, as amended. \<open>handleTranscribe\<close> requires a finished recording: without one it
  only sets the message \<open>No audio recorded to transcribe.\<close> and issues no request. That
  no transcription starts while a recording is in progress or a transcription is in
  flight is enforced by the \<open>disabled\<close> attribute of the Transcribe button, not by the
  handler: a click on the button in either state changes nothing and issues no request.
\<close>

theorem transcribe_requires_recording:
  "(audioBlob s = None \<longrightarrow>
      handleTranscribe e s = (s\<lparr>error := Some (js ''No audio recorded to transcribe.'')\<rparr>, []))
   \<and> (isRecording s \<or> isTranscribing s \<longrightarrow> click_transcribe e s = (s, []))"
  by (simp add: handleTranscribe_def handleTranscribe_begin_def click_transcribe_def
        transcribe_disabled_def)

text \<open>The theorem with no recording, with a transcription in flight and while recording.\<close>

theorem transcribe_requires_recording_witness:
  "audioBlob example_app = None
   \<and> handleTranscribe online_env example_app
       = (example_app\<lparr>error := Some (js ''No audio recorded to transcribe.'')\<rparr>, [])
   \<and> isTranscribing inflight_app
   \<and> click_transcribe online_env inflight_app = (inflight_app, [])
   \<and> isRecording overlapping_app
   \<and> click_transcribe online_env overlapping_app = (overlapping_app, [])"
proof -
  have a: "audioBlob example_app = None" by (simp add: example_app_def initial_app_def)
  have t: "isTranscribing inflight_app"
    by (simp add: inflight_app_def handleTranscribe_begin_def recording_defs)
  have r: "isRecording overlapping_app" by (simp add: overlapping_app_def recording_defs)
  from transcribe_requires_recording [of example_app online_env]
       transcribe_requires_recording [of inflight_app online_env]
       transcribe_requires_recording [of overlapping_app online_env] a t r
  show ?thesis by simp
qed

text \<open>
  The claim as first stated fails: the handler itself, invoked while a transcription is
  in flight or while a recording is in progress, issues a new transcription request.
\<close>

theorem transcribe_exclusion_counterexample:
  "isTranscribing inflight_app
   \<and> snd (handleTranscribe online_env inflight_app)
       = [transcribe_request (Some (js ''GkXfow=='')) (js ''audio/webm'') (js ''English''),
          Request (js ''gemini-2.5-flash'')
            [TextPart (js ''Analyze the following text and provide counts for the specified metrics. Text: ''
                         @ [0x22] @ js ''hello'' @ [0x22])] True]
   \<and> isRecording overlapping_app
   \<and> snd (handleTranscribe online_env overlapping_app)
       = [transcribe_request (Some (js ''GkXfow=='')) (js ''audio/webm'') (js ''English''),
          Request (js ''gemini-2.5-flash'')
            [TextPart (js ''Analyze the following text and provide counts for the specified metrics. Text: ''
                         @ [0x22] @ js ''hello'' @ [0x22])] True]"
  by (simp add: transcribe_defs inflight_app_def overlapping_app_def recording_defs
        online_env_def js_def trim_def isWhiteSpace_def)

subsection \<open>C6: the persistent store\<close>

text \<open>
  Claim C6. For every key and every default, given as a value or as a producer that
  returns one: when access to the store is denied, the key is missing, the stored string
  is empty or it fails to deserialize, the read returns the default without raising, and
  a producer has been called exactly once; when the stored string deserializes, the read
  returns its value and the producer is not called at all. The write effect never
  changes the value held in memory, and when serialization or storage fails it only
  appends a line to the console.
\<close>

theorem store_read_defaults_write_swallowed:
  "(initialValue = Value v \<or> initialValue = Producer (\<lambda>_. Inr v) \<longrightarrow>
      (denied ls \<or> items ls key = None \<or> items ls key = Some []
         \<or> (\<exists>str. items ls key = Some str \<and> isl (parse str))
       \<longrightarrow> fst (useLocalStorage_read parse ls key initialValue) = Inr v
           \<and> fst (snd (useLocalStorage_read parse ls key initialValue))
             = (case initialValue of Value _ \<Rightarrow> 0 | Producer _ \<Rightarrow> 1)))
   \<and> (\<not> denied ls \<and> items ls key = Some str \<and> str \<noteq> [] \<and> parse str = Inr w
       \<longrightarrow> useLocalStorage_read parse ls key initialValue = (Inr w, 0, []))
   \<and> storedValue (useLocalStorage_effect stringify key h) = storedValue h
   \<and> (isl (stringify (storedValue h)) \<or> denied (storage h) \<or> full (storage h)
       \<longrightarrow> useLocalStorage_effect stringify key h
           = h\<lparr>console := console h @ [write_error_log key]\<rparr>)"
proof (intro conjI impI)
  assume i: "initialValue = Value v \<or> initialValue = Producer (\<lambda>_. Inr v)"
    and m: "denied ls \<or> items ls key = None \<or> items ls key = Some []
         \<or> (\<exists>str. items ls key = Some str \<and> isl (parse str))"
  from i have res: "resolve_initial initialValue
                    = (Inr v, case initialValue of Value _ \<Rightarrow> 0 | Producer _ \<Rightarrow> 1)"
    by (auto simp: resolve_initial_def)
  from m res show "fst (useLocalStorage_read parse ls key initialValue) = Inr v"
    by (auto simp: useLocalStorage_read_def getItem_def isl_def split: option.splits sum.splits)
  from m res show "fst (snd (useLocalStorage_read parse ls key initialValue))
             = (case initialValue of Value _ \<Rightarrow> 0 | Producer _ \<Rightarrow> 1)"
    by (auto simp: useLocalStorage_read_def getItem_def isl_def split: option.splits sum.splits)
next
  assume "\<not> denied ls \<and> items ls key = Some str \<and> str \<noteq> [] \<and> parse str = Inr w"
  then show "useLocalStorage_read parse ls key initialValue = (Inr w, 0, [])"
    by (simp add: useLocalStorage_read_def getItem_def)
next
  show "storedValue (useLocalStorage_effect stringify key h) = storedValue h"
    by (simp add: useLocalStorage_effect_def split: sum.splits)
next
  assume "isl (stringify (storedValue h)) \<or> denied (storage h) \<or> full (storage h)"
  then show "useLocalStorage_effect stringify key h
           = h\<lparr>console := console h @ [write_error_log key]\<rparr>"
    by (auto simp: useLocalStorage_effect_def setItem_def isl_def split: sum.splits)
qed

text \<open>The theorem at a corrupted theme, at a stored theme, and at a full store.\<close>

theorem store_read_defaults_write_swallowed_witness:
  "items corrupt_store theme_key = Some (js ''{oops'') \<and> isl (parse_theme (js ''{oops''))
   \<and> fst (useLocalStorage_read parse_theme corrupt_store theme_key
            (Producer (\<lambda>_. Inr (js ''light'')))) = Inr (js ''light'')
   \<and> fst (snd (useLocalStorage_read parse_theme corrupt_store theme_key
                 (Producer (\<lambda>_. Inr (js ''light''))))) = 1
   \<and> useLocalStorage_read parse_theme dark_store theme_key (Producer (\<lambda>_. Inr (js ''light'')))
       = (Inr (js ''dark''), 0, [])
   \<and> full (storage full_hook)
   \<and> useLocalStorage_effect stringify_theme theme_key full_hook
       = full_hook\<lparr>console := [write_error_log theme_key]\<rparr>"
proof -
  let ?init = "Producer (\<lambda>_. Inr (js ''light'')) :: jsstring initial"
  let ?dark = "[0x22] @ js ''dark'' @ [0x22]"
  note corrupt = store_read_defaults_write_swallowed
    [of ?init "js ''light''" corrupt_store theme_key parse_theme ?dark "js ''dark''"
        stringify_theme full_hook]
  note dark = store_read_defaults_write_swallowed
    [of ?init "js ''light''" dark_store theme_key parse_theme ?dark "js ''dark''"
        stringify_theme full_hook]
  have c: "items corrupt_store theme_key = Some (js ''{oops'')" "isl (parse_theme (js ''{oops''))"
    by (simp_all add: corrupt_store_def parse_theme_def js_def)
  then have "\<exists>str. items corrupt_store theme_key = Some str \<and> isl (parse_theme str)" by blast
  with corrupt
  have r1: "fst (useLocalStorage_read parse_theme corrupt_store theme_key ?init) = Inr (js ''light'')"
    and r2: "fst (snd (useLocalStorage_read parse_theme corrupt_store theme_key ?init)) = 1"
    by simp_all
  have d: "\<not> denied dark_store \<and> items dark_store theme_key = Some ?dark \<and> ?dark \<noteq> []
           \<and> parse_theme ?dark = Inr (js ''dark'')"
    by (simp add: dark_store_def parse_theme_def)
  with dark
  have r3: "useLocalStorage_read parse_theme dark_store theme_key ?init = (Inr (js ''dark''), 0, [])"
    by blast
  have f: "full (storage full_hook)" by (simp add: full_hook_def)
  with dark
  have "useLocalStorage_effect stringify_theme theme_key full_hook
          = full_hook\<lparr>console := console full_hook @ [write_error_log theme_key]\<rparr>"
    by blast
  then have r4: "useLocalStorage_effect stringify_theme theme_key full_hook
          = full_hook\<lparr>console := [write_error_log theme_key]\<rparr>"
    by (simp add: full_hook_def)
  from c r1 r2 r3 f r4 show ?thesis by simp
qed

subsection \<open>C7: metrics of a blank text\<close>

text \<open>
  Claim C7. For every text that is empty after trimming, the metrics analysis issues no
  request, sets the metrics to none and hides them, and leaves the error message as it
  was; a request is issued only for a text that is non-empty after trimming.
\<close>

theorem metrics_blank_short_circuit:
  "(trim t = [] \<longrightarrow>
      runMetricsAnalysis e t s = (s\<lparr>metrics := None, showMetrics := False\<rparr>, [])
      \<and> metrics (fst (runMetricsAnalysis e t s)) = None
      \<and> error (fst (runMetricsAnalysis e t s)) = error s
      \<and> snd (runMetricsAnalysis e t s) = [])
   \<and> (snd (runMetricsAnalysis e t s) \<noteq> [] \<longrightarrow> trim t \<noteq> [])"
  by (simp add: runMetricsAnalysis_def)

text \<open>The theorem at a text of a space, a line feed and a tab, and at \<open>hello\<close>.\<close>

theorem metrics_blank_short_circuit_witness:
  "trim [0x20, 0xA, 0x9] = []
   \<and> runMetricsAnalysis online_env [0x20, 0xA, 0x9] (example_app\<lparr>metrics := Some example_metrics\<rparr>)
       = (example_app\<lparr>metrics := None, showMetrics := False\<rparr>, [])
   \<and> snd (runMetricsAnalysis online_env (js ''hello'') example_app) \<noteq> []
   \<and> trim (js ''hello'') \<noteq> []"
proof -
  have b: "trim [0x20, 0xA, 0x9] = []" by (simp add: trim_def isWhiteSpace_def)
  have c: "snd (runMetricsAnalysis online_env (js ''hello'') example_app) \<noteq> []"
    by (simp add: runMetricsAnalysis_def analyzeTextMetrics_def online_env_def js_def trim_def
          isWhiteSpace_def Let_def split_def)
  from metrics_blank_short_circuit
         [of "[0x20, 0xA, 0x9]" online_env "example_app\<lparr>metrics := Some example_metrics\<rparr>"]
       metrics_blank_short_circuit [of "js ''hello''" online_env example_app] b c
  show ?thesis by simp
qed

subsection \<open>C8: loading a session\<close>

text \<open>
  Claim C8. Loading never changes the stored collection, so no stored session's id, name,
  text or date changes. For an id in the collection it copies the text and the name of
  the first session with that id into the editing state and runs the metrics analysis
  on that text.
\<close>

theorem load_is_read_only:
  "savedSessions (fst (handleLoadSession e i s)) = savedSessions s
   \<and> (\<forall>x. find (\<lambda>x. session_id x = i) (savedSessions s) = Some x \<longrightarrow>
         transcribedText (fst (handleLoadSession e i s)) = session_text x
       \<and> sessionName (fst (handleLoadSession e i s)) = session_name x
       \<and> handleLoadSession e i s =
           runMetricsAnalysis e (session_text x)
             (s\<lparr>transcribedText := session_text x, sessionName := session_name x,
                audioBlob := None, audioUrl := [], error := None, copySuccess := []\<rparr>))"
  by (auto simp: handleLoadSession_def runMetricsAnalysis_def Let_def
           split: option.splits prod.splits sum.splits)

text \<open>The theorem at the stored session \<open>A\<close>.\<close>

theorem load_is_read_only_witness:
  "find (\<lambda>x. session_id x = session_id session_A) (savedSessions example_app) = Some session_A
   \<and> savedSessions (fst (handleLoadSession online_env (session_id session_A) example_app))
       = savedSessions example_app
   \<and> transcribedText (fst (handleLoadSession online_env (session_id session_A) example_app))
       = js ''hello''
   \<and> sessionName (fst (handleLoadSession online_env (session_id session_A) example_app)) = js ''A''"
proof -
  have f: "find (\<lambda>x. session_id x = session_id session_A) (savedSessions example_app) = Some session_A"
    by (simp add: eval_defs)
  with load_is_read_only [of online_env "session_id session_A" example_app]
  have "savedSessions (fst (handleLoadSession online_env (session_id session_A) example_app))
          = savedSessions example_app
        \<and> transcribedText (fst (handleLoadSession online_env (session_id session_A) example_app))
          = session_text session_A
        \<and> sessionName (fst (handleLoadSession online_env (session_id session_A) example_app))
          = session_name session_A"
    by blast
  with f show ?thesis by (simp add: session_A_def)
qed

subsection \<open>C9: deleting a session\<close>

text \<open>
  Claim C9. For every collection and every id, deleting keeps, in their order, exactly
  the sessions whose id differs, and sets no error; deleting an id that no session has
  leaves the whole state as it was.
\<close>

theorem delete_removes_exactly_matching:
  "savedSessions (handleDeleteSession i s) = filter (\<lambda>x. session_id x \<noteq> i) (savedSessions s)
   \<and> (\<forall>x. x \<in> set (savedSessions (handleDeleteSession i s))
            \<longleftrightarrow> x \<in> set (savedSessions s) \<and> session_id x \<noteq> i)
   \<and> error (handleDeleteSession i s) = error s
   \<and> (i \<notin> session_id ` set (savedSessions s) \<longrightarrow> handleDeleteSession i s = s)"
proof -
  have absent: "handleDeleteSession i s = s" if "i \<notin> session_id ` set (savedSessions s)"
  proof -
    from that have "\<forall>x \<in> set (savedSessions s). session_id x \<noteq> i" by auto
    then have "filter (\<lambda>x. session_id x \<noteq> i) (savedSessions s) = savedSessions s"
      by (simp add: filter_id_conv)
    then show ?thesis by (simp add: handleDeleteSession_def)
  qed
  show ?thesis using absent by (simp add: handleDeleteSession_def)
qed

text \<open>The theorem at an id that is absent, and at the id of \<open>A\<close>.\<close>

theorem delete_removes_exactly_matching_witness:
  "js ''42'' \<notin> session_id ` set (savedSessions example_app)
   \<and> handleDeleteSession (js ''42'') example_app = example_app
   \<and> savedSessions (handleDeleteSession (session_id session_A) example_app) = [session_B]"
  using delete_removes_exactly_matching [of "js ''42''" example_app]
        delete_removes_exactly_matching [of "session_id session_A" example_app]
  by (simp add: eval_defs)

subsection \<open>C10: saving a blank transcript; trimmed name, raw text\<close>

text \<open>
  Claim C10, as amended. When the transcript text trims to the empty string, the save is
  rejected with the message \<open>There is no transcribed text to save.\<close> and the collection
  is unchanged. When the save succeeds, the stored session's text is the transcript text
  as it is, untrimmed, and its name is the trimmed requested name when that is non-empty
  and \<open>Session\<close> followed by the local time otherwise.
\<close>

theorem save_blank_text_rejected:
  "(trim (transcribedText s) = [] \<longrightarrow>
      handleSaveSession c s = s\<lparr>error := Some (js ''There is no transcribed text to save.'')\<rparr>
      \<and> savedSessions (handleSaveSession c s) = savedSessions s)
   \<and> (error (handleSaveSession c s) = None \<longrightarrow>
        (\<exists>new. savedSessions (handleSaveSession c s) = new # savedSessions s
           \<and> session_text new = transcribedText s
           \<and> (trim (sessionName s) \<noteq> [] \<longrightarrow> session_name new = trim (sessionName s))
           \<and> (trim (sessionName s) = [] \<longrightarrow>
                 session_name new = js ''Session '' @ toLocaleString c)))"
  by (simp add: handleSaveSession_def Let_def split: if_splits)

text \<open>
  The theorem at a transcript of one space, at the name \<open>Notes\<close> with spaces, and at a
  name of two spaces.
\<close>

theorem save_blank_text_rejected_witness:
  "trim (transcribedText (example_app\<lparr>transcribedText := js '' ''\<rparr>)) = []
   \<and> error (handleSaveSession example_clock (example_app\<lparr>transcribedText := js '' ''\<rparr>))
       = Some (js ''There is no transcribed text to save.'')
   \<and> savedSessions (handleSaveSession example_clock (example_app\<lparr>transcribedText := js '' ''\<rparr>))
       = [session_B, session_A]
   \<and> error (handleSaveSession example_clock named_app) = None
   \<and> trim (sessionName named_app) \<noteq> []
   \<and> (\<exists>new. savedSessions (handleSaveSession example_clock named_app) = new # savedSessions named_app
         \<and> session_text new = js ''hello'' \<and> session_name new = js ''Notes'')
   \<and> error (handleSaveSession example_clock blank_name_app) = None
   \<and> trim (sessionName blank_name_app) = []
   \<and> (\<exists>new. savedSessions (handleSaveSession example_clock blank_name_app)
               = new # savedSessions blank_name_app
         \<and> session_text new = js ''hello''
         \<and> session_name new = js ''Session 11/14/2023, 10:13:21 PM'')"
proof -
  have h1: "trim (transcribedText (example_app\<lparr>transcribedText := js '' ''\<rparr>)) = []"
    by (simp add: eval_defs)
  have h2: "error (handleSaveSession example_clock named_app) = None"
    by (simp add: save_succeeds_iff named_app_def eval_defs)
  have h3: "trim (sessionName named_app) \<noteq> []"
    by (simp add: named_app_def eval_defs)
  have h4: "error (handleSaveSession example_clock blank_name_app) = None"
    by (simp add: save_succeeds_iff blank_name_app_def eval_defs)
  have h5: "trim (sessionName blank_name_app) = []"
    by (simp add: blank_name_app_def eval_defs)
  from save_blank_text_rejected [of "example_app\<lparr>transcribedText := js '' ''\<rparr>" example_clock]
       save_blank_text_rejected [of named_app example_clock]
       save_blank_text_rejected [of blank_name_app example_clock] h1 h2 h3 h4 h5
  show ?thesis by (simp add: named_app_def blank_name_app_def eval_defs)
qed

text \<open>
  The claim as first stated fails for a requested name of white space only: the save
  succeeds, and the stored name is the synthesized one, not the empty trimmed name.
\<close>

theorem save_trimmed_name_counterexample:
  "error (handleSaveSession example_clock blank_name_app) = None
   \<and> map session_name (savedSessions (handleSaveSession example_clock blank_name_app))
       = [js ''Session 11/14/2023, 10:13:21 PM'', js ''B'', js ''A'']
   \<and> trim (sessionName blank_name_app) = []"
  by (simp add: handleSaveSession_def blank_name_app_def eval_defs)

end
